theory Spec2Isabelle
  imports Main
begin

section \<open>The worker lifecycle hook of src/lib/useWebworker.ts\<close>

text \<open>
  The hook \<^verbatim>\<open>useWebworker\<close> keeps three pieces of React state (\<^verbatim>\<open>data\<close>,
  \<^verbatim>\<open>error\<close>, \<^verbatim>\<open>status\<close>) and two refs (\<^verbatim>\<open>workerRef\<close>,
  \<^verbatim>\<open>timeoutRef\<close>). Every piece of code that touches them runs on the single
  control thread, one callback at a time, so the hook is modelled by explicit state
  passing: each callback of the source is a function from the state before to the state
  after. The host (worker constructor, timers, console) is part of the state: the handles
  created so far, the pending timers with the closure each one carries, and a log of the
  calls made on the host.
\<close>

subsection \<open>Values\<close>

text \<open>The five strings of the union type \<^verbatim>\<open>WorkerStatus\<close>.\<close>

datatype WorkerStatus = Idle | Running | Success | Error | Terminated

text \<open>
  \<^verbatim>\<open>data\<close> and \<^verbatim>\<open>error\<close> have the types \<^verbatim>\<open>R | null\<close> and
  \<^verbatim>\<open>any | null\<close>: a value of JavaScript, with \<open>JNull\<close> for \<^verbatim>\<open>null\<close>,
  \<open>JError m\<close> for \<^verbatim>\<open>new Error(m)\<close> and \<open>JErrorEvent m\<close> for an
  \<^verbatim>\<open>ErrorEvent\<close> with message \<open>m\<close>.
\<close>

datatype jsval =
    JNull
  | JNum int
  | JStr string
  | JObj "(string \<times> jsval) list"
  | JError string
  | JErrorEvent string

text \<open>
  \<^verbatim>\<open>workerSource: string | URL | (() => Worker)\<close>. A string is compared by value in
  the dependency array, a \<^verbatim>\<open>URL\<close> object and a factory by identity (the number);
  \<open>Absent\<close> is a missing argument. Only the empty string and the missing argument are
  falsy.
\<close>

datatype workerSource = Absent | Script string | ScriptURL nat | WorkerFactory nat

fun truthy_source :: "workerSource \<Rightarrow> bool" where
  "truthy_source Absent = False"
| "truthy_source (Script u) = (u \<noteq> [])"
| "truthy_source (ScriptURL _) = True"
| "truthy_source (WorkerFactory _) = True"

text \<open>\<^verbatim>\<open>options?.timeout\<close>: a number or undefined; truthy when present and not 0.\<close>

fun truthy_timeout :: "int option \<Rightarrow> bool" where
  "truthy_timeout None = False"
| "truthy_timeout (Some n) = (n \<noteq> 0)"

text \<open>
  What the host answers when the effect constructs the worker (\<^verbatim>\<open>workerSource()\<close> or
  \<^verbatim>\<open>new Worker(workerSource)\<close>): a fresh handle, or a thrown value.
\<close>

datatype construction = Spawned | Throws jsval

text \<open>The calls the hook makes on the host that the specification observes.\<close>

datatype effect = Terminate nat | Post nat jsval | Warn string

subsection \<open>State\<close>

text \<open>
  \<open>deps\<close> is the dependency array of the last run of the effect (\<open>None\<close> before the
  first run) and \<open>cleanup\<close> says whether that run returned its cleanup function.
  \<open>timers\<close> holds the pending timers of \<^verbatim>\<open>window.setTimeout\<close>, each with the value
  of \<^verbatim>\<open>status\<close> its closure captured; timer ids are positive and never reused.
  Handles are numbered in the order of their creation: the handles that exist are those
  below \<open>next_worker\<close>.
\<close>

record hook =
  data :: jsval
  error :: jsval
  status :: WorkerStatus
  workerRef :: "nat option"
  timeoutRef :: "nat option"
  deps :: "(workerSource \<times> int option) option"
  cleanup :: bool
  timers :: "(nat \<times> WorkerStatus) list"
  next_timer :: nat
  next_worker :: nat
  effects :: "effect list"

definition init_state :: hook where
  "init_state = \<lparr> data = JNull, error = JNull, status = Idle, workerRef = None,
     timeoutRef = None, deps = None, cleanup = False, timers = [], next_timer = 1,
     next_worker = 0, effects = [] \<rparr>"

subsection \<open>The callbacks\<close>

text \<open>
  The block \<^verbatim>\<open>if (timeoutRef.current) { clearTimeout(timeoutRef.current);
  timeoutRef.current = undefined; }\<close>, which the source repeats in \<^verbatim>\<open>terminateWorker\<close>,
  in \<^verbatim>\<open>onmessage\<close> and in \<^verbatim>\<open>onerror\<close>. The id 0 is falsy.
\<close>

definition clearPendingTimeout :: "hook \<Rightarrow> hook" where
  "clearPendingTimeout s =
     (case timeoutRef s of
        None \<Rightarrow> s
      | Some t \<Rightarrow>
          if t = 0 then s
          else s\<lparr> timers := filter (\<lambda>p. fst p \<noteq> t) (timers s), timeoutRef := None \<rparr>)"

definition terminateWorker :: "hook \<Rightarrow> hook" where
  "terminateWorker s =
     (case workerRef s of
        None \<Rightarrow> s
      | Some w \<Rightarrow>
          clearPendingTimeout
            (s\<lparr> effects := effects s @ [Terminate w], workerRef := None,
                status := Terminated, data := JNull, error := JNull \<rparr>))"

definition onmessage :: "jsval \<Rightarrow> hook \<Rightarrow> hook" where
  "onmessage payload s =
     clearPendingTimeout (s\<lparr> data := payload, status := Success, error := JNull \<rparr>)"

definition onerror :: "jsval \<Rightarrow> hook \<Rightarrow> hook" where
  "onerror err s =
     clearPendingTimeout (s\<lparr> error := err, status := Error, data := JNull \<rparr>)"

text \<open>
  The function given to \<^verbatim>\<open>window.setTimeout\<close>. Its \<^verbatim>\<open>status\<close> is the variable of
  the render whose effect scheduled it, so it is a parameter \<open>c\<close> here.
\<close>

definition timeoutAction :: "WorkerStatus \<Rightarrow> hook \<Rightarrow> hook" where
  "timeoutAction c s =
     (if c \<noteq> Success \<and> c \<noteq> Error
      then (terminateWorker s)\<lparr> error := JError ''Worker timed out'', status := Error \<rparr>
      else s)"

text \<open>
  The body of the effect, from \<^verbatim>\<open>if (!workerSource) return;\<close> to the returned
  cleanup. \<open>c\<close> is the \<^verbatim>\<open>status\<close> of the render that runs the effect.
\<close>

definition effect_body ::
  "WorkerStatus \<Rightarrow> workerSource \<Rightarrow> int option \<Rightarrow> construction \<Rightarrow> hook \<Rightarrow> hook" where
  "effect_body c src tmo out s =
     (if \<not> truthy_source src then s\<lparr> cleanup := False \<rparr>
      else
        (case out of
           Throws e \<Rightarrow> s\<lparr> error := e, status := Error, cleanup := True \<rparr>
         | Spawned \<Rightarrow>
             (let s1 = s\<lparr> workerRef := Some (next_worker s), status := Running,
                           next_worker := Suc (next_worker s) \<rparr>;
                  s2 = (if truthy_timeout tmo
                        then s1\<lparr> timers := timers s1 @ [(next_timer s1, c)],
                                 timeoutRef := Some (next_timer s1),
                                 next_timer := Suc (next_timer s1) \<rparr>
                        else s1)
              in s2\<lparr> cleanup := True \<rparr>)))"

text \<open>
  A render with the arguments \<open>src\<close> and \<open>tmo\<close>. React runs the effect when the
  dependency array differs from the last one: first the cleanup of the last run, when
  there is one, then the body, whose closure sees the \<^verbatim>\<open>status\<close> of this render.
\<close>

definition render :: "workerSource \<Rightarrow> int option \<Rightarrow> construction \<Rightarrow> hook \<Rightarrow> hook" where
  "render src tmo out s =
     (if deps s = Some (src, tmo) then s
      else effect_body (status s) src tmo out
             ((if cleanup s then terminateWorker s else s)\<lparr> deps := Some (src, tmo) \<rparr>))"

definition misuse :: string where
  "misuse = ''Worker is not running or has been terminated.''"

text \<open>
  \<^verbatim>\<open>postMessage\<close> is built by \<^verbatim>\<open>useCallback\<close> with the dependency \<^verbatim>\<open>status\<close>:
  the \<^verbatim>\<open>status\<close> it tests is the one of the render that built the callback, a
  parameter \<open>c\<close> here, while \<^verbatim>\<open>workerRef.current\<close> is read when it is called.
\<close>

definition postMessage :: "WorkerStatus \<Rightarrow> jsval \<Rightarrow> hook \<Rightarrow> hook" where
  "postMessage c message s =
     (case workerRef s of
        Some w \<Rightarrow>
          if c \<noteq> Terminated then s\<lparr> effects := effects s @ [Post w message] \<rparr>
          else s\<lparr> effects := effects s @ [Warn misuse], error := JError misuse,
                  status := Error \<rparr>
      | None \<Rightarrow>
          s\<lparr> effects := effects s @ [Warn misuse], error := JError misuse,
             status := Error \<rparr>)"

text \<open>The host runs a pending timer: it leaves the pending list, then its closure runs.\<close>

definition fire :: "nat \<Rightarrow> hook \<Rightarrow> hook" where
  "fire t s =
     (case map_of (timers s) t of
        None \<Rightarrow> s
      | Some c \<Rightarrow> timeoutAction c (s\<lparr> timers := filter (\<lambda>p. fst p \<noteq> t) (timers s) \<rparr>))"

subsection \<open>Operation sequences\<close>

text \<open>
  What can happen to a mounted hook. \<open>Message w p\<close> and \<open>WorkerError w m\<close> are the host
  calling the relays installed on handle \<open>w\<close>; they exist once \<open>w\<close> has been created, and
  the source never removes them, so a host may still call them after \<open>w\<close> was terminated
  (the late message of the specification). \<open>Render src tmo out\<close> is a render with these
  arguments; \<open>out\<close> is what the host answers if the effect of that render constructs a
  worker, and is not looked at otherwise. \<open>PostMessage c m\<close> is a call of a
  \<^verbatim>\<open>postMessage\<close> callback that was built by a render with status \<open>c\<close>: the callback
  of an up-to-date render has the current status, but a caller may post in the commit
  that has just changed it, or through an older callback it kept.
\<close>

datatype event =
    Render workerSource "int option" construction
  | Message nat jsval
  | WorkerError nat string
  | PostMessage WorkerStatus jsval
  | TerminateWorker
  | TimerFires nat

fun step :: "event \<Rightarrow> hook \<Rightarrow> hook" where
  "step (Render src tmo out) s = render src tmo out s"
| "step (Message w p) s = (if w < next_worker s then onmessage p s else s)"
| "step (WorkerError w m) s = (if w < next_worker s then onerror (JErrorEvent m) s else s)"
| "step (PostMessage c m) s = postMessage c m s"
| "step TerminateWorker s = terminateWorker s"
| "step (TimerFires t) s = fire t s"

fun run :: "event list \<Rightarrow> hook \<Rightarrow> hook" where
  "run [] s = s"
| "run (e # es) s = run es (step e s)"







text \<open>A handle is live when it has been created and never terminated.\<close>

definition live :: "nat \<Rightarrow> hook \<Rightarrow> bool" where
  "live w s = (w < next_worker s \<and> Terminate w \<notin> set (effects s))"

subsection \<open>Reachable states and what holds in all of them\<close>

definition state_after :: "event list \<Rightarrow> hook" where
  "state_after evs = run evs init_state"

text \<open>The last run of the effect returned a cleanup: its source was truthy.\<close>

fun registered :: "(workerSource \<times> int option) option \<Rightarrow> bool" where
  "registered None = False"
| "registered (Some (src, tmo)) = truthy_source src"

text \<open>
  The bookkeeping every callback preserves: a pending timer is the one in
  \<^verbatim>\<open>timeoutRef\<close> and belongs to a held handle; every handle ever created, other than
  the one in \<^verbatim>\<open>workerRef\<close>, has been terminated exactly once and the held one never;
  a held handle has its cleanup registered; and the part of the nullity rules that the
  callbacks keep whatever the host does.
\<close>

definition wf :: "hook \<Rightarrow> bool" where
  "wf s \<longleftrightarrow>
     (\<forall>p \<in> set (timers s). timeoutRef s = Some (fst p))
   \<and> length (timers s) \<le> 1
   \<and> (timers s \<noteq> [] \<longrightarrow> workerRef s \<noteq> None)
   \<and> (\<forall>t. timeoutRef s = Some t \<longrightarrow> 0 < t \<and> t < next_timer s)
   \<and> (\<forall>w. count_list (effects s) (Terminate w) =
            (if w < next_worker s \<and> workerRef s \<noteq> Some w then 1 else 0))
   \<and> (\<forall>w. workerRef s = Some w \<longrightarrow> w < next_worker s)
   \<and> (workerRef s \<noteq> None \<longrightarrow> cleanup s)
   \<and> cleanup s = registered (deps s)
   \<and> (status s = Idle \<or> status s = Terminated \<longrightarrow>
        data s = JNull \<and> error s = JNull \<and> workerRef s = None)
   \<and> (status s = Running \<longrightarrow> workerRef s \<noteq> None)
   \<and> (error s \<noteq> JNull \<longrightarrow> status s = Error \<or> status s = Running)
   \<and> 0 < next_timer s"




section \<open>Preservation of the bookkeeping\<close>

lemma wf_init: "wf init_state"
  by (simp add: wf_def init_state_def)

lemma filter_all_out: "\<forall>p \<in> set xs. fst p = t \<Longrightarrow> filter (\<lambda>p. fst p \<noteq> t) xs = []"
  by (induction xs) auto

lemma clear_eq:
  assumes "\<forall>p \<in> set (timers s). timeoutRef s = Some (fst p)"
    and "\<forall>t. timeoutRef s = Some t \<longrightarrow> 0 < t"
  shows "clearPendingTimeout s = s\<lparr> timers := [], timeoutRef := None \<rparr>"
proof (cases "timeoutRef s")
  case None
  with assms(1) have "timers s = []" by (cases "timers s") auto
  with None show ?thesis by (simp add: clearPendingTimeout_def)
next
  case (Some t)
  with assms(1) have "\<forall>p \<in> set (timers s). fst p = t" by auto
  then have "filter (\<lambda>p. fst p \<noteq> t) (timers s) = []" by (rule filter_all_out)
  moreover from Some assms(2) have "t \<noteq> 0" by auto
  ultimately show ?thesis using Some by (simp add: clearPendingTimeout_def)
qed

lemma terminate_none: "workerRef s = None \<Longrightarrow> terminateWorker s = s"
  by (simp add: terminateWorker_def)

lemma terminate_some:
  assumes "wf s" and "workerRef s = Some w"
  shows "terminateWorker s =
    s\<lparr> effects := effects s @ [Terminate w], workerRef := None, status := Terminated,
       data := JNull, error := JNull, timers := [], timeoutRef := None \<rparr>"
proof -
  let ?s1 = "s\<lparr> effects := effects s @ [Terminate w], workerRef := None,
                status := Terminated, data := JNull, error := JNull \<rparr>"
  from assms(1) have "\<forall>p \<in> set (timers ?s1). timeoutRef ?s1 = Some (fst p)"
    and "\<forall>t. timeoutRef ?s1 = Some t \<longrightarrow> 0 < t"
    by (simp_all add: wf_def)
  then have "clearPendingTimeout ?s1 = ?s1\<lparr> timers := [], timeoutRef := None \<rparr>"
    by (rule clear_eq)
  with assms(2) show ?thesis by (simp add: terminateWorker_def)
qed

lemma wf_terminate: "wf s \<Longrightarrow> wf (terminateWorker s)"
proof (cases "workerRef s")
  case None
  assume "wf s" with None show ?thesis by (simp add: terminate_none)
next
  case (Some w)
  assume w: "wf s"
  show ?thesis
    unfolding terminate_some [OF w Some]
    using w Some by (auto simp: wf_def)
qed

lemma wf_onmessage: "wf s \<Longrightarrow> wf (onmessage p s)"
proof -
  assume w: "wf s"
  let ?s1 = "s\<lparr> data := p, status := Success, error := JNull \<rparr>"
  from w have "\<forall>p \<in> set (timers ?s1). timeoutRef ?s1 = Some (fst p)"
    and "\<forall>t. timeoutRef ?s1 = Some t \<longrightarrow> 0 < t"
    by (simp_all add: wf_def)
  then have "clearPendingTimeout ?s1 = ?s1\<lparr> timers := [], timeoutRef := None \<rparr>"
    by (rule clear_eq)
  then show ?thesis using w by (auto simp: onmessage_def wf_def)
qed

lemma wf_onerror: "wf s \<Longrightarrow> wf (onerror e s)"
proof -
  assume w: "wf s"
  let ?s1 = "s\<lparr> error := e, status := Error, data := JNull \<rparr>"
  from w have "\<forall>p \<in> set (timers ?s1). timeoutRef ?s1 = Some (fst p)"
    and "\<forall>t. timeoutRef ?s1 = Some t \<longrightarrow> 0 < t"
    by (simp_all add: wf_def)
  then have "clearPendingTimeout ?s1 = ?s1\<lparr> timers := [], timeoutRef := None \<rparr>"
    by (rule clear_eq)
  then show ?thesis using w by (auto simp: onerror_def wf_def)
qed

lemma wf_postMessage: "wf s \<Longrightarrow> wf (postMessage c m s)"
  by (auto simp: wf_def postMessage_def split: option.splits)

lemma wf_set_error: "wf s \<Longrightarrow> wf (s\<lparr> error := e, status := Error \<rparr>)"
  by (auto simp: wf_def)

lemma wf_timers_empty: "wf s \<Longrightarrow> workerRef s = None \<Longrightarrow> timers s = []"
  by (auto simp: wf_def)

lemma wf_effect_body:
  assumes "wf s" and "workerRef s = None"
  shows "wf (effect_body c src tmo out (s\<lparr> deps := Some (src, tmo) \<rparr>))"
proof -
  from assms have t: "timers s = []" by (rule wf_timers_empty)
  show ?thesis
  proof (cases "truthy_source src")
    case False
    with assms t show ?thesis by (auto simp: wf_def effect_body_def)
  next
    case True
    show ?thesis
    proof (cases out)
      case (Throws e)
      with True assms t show ?thesis by (auto simp: wf_def effect_body_def)
    next
      case Spawned
      with True assms t show ?thesis
        by (auto simp: wf_def effect_body_def Let_def less_Suc_eq)
    qed
  qed
qed

lemma workerRef_terminate: "workerRef (terminateWorker s) = None"
  by (auto simp: terminateWorker_def clearPendingTimeout_def split: option.splits)

lemma wf_teardown:
  assumes "wf s"
  shows "wf (if cleanup s then terminateWorker s else s)"
    and "workerRef (if cleanup s then terminateWorker s else s) = None"
  using assms by (auto simp: wf_terminate workerRef_terminate) (auto simp: wf_def)

lemma wf_render: "wf s \<Longrightarrow> wf (render src tmo out s)"
  by (simp add: render_def wf_effect_body wf_teardown)

lemma wf_fire: "wf s \<Longrightarrow> wf (fire t s)"
proof (cases "map_of (timers s) t")
  case None
  assume "wf s" with None show ?thesis by (simp add: fire_def)
next
  case (Some c)
  assume w: "wf s"
  from Some have "(t, c) \<in> set (timers s)" by (rule map_of_SomeD)
  with w have "timeoutRef s = Some t" by (auto simp: wf_def)
  with w have "\<forall>p \<in> set (timers s). fst p = t" by (auto simp: wf_def)
  then have f: "filter (\<lambda>p. fst p \<noteq> t) (timers s) = []" by (rule filter_all_out)
  from w have w1: "wf (s\<lparr> timers := [] \<rparr>)" by (auto simp: wf_def)
  then have "wf ((terminateWorker (s\<lparr> timers := [] \<rparr>))
                  \<lparr> error := JError ''Worker timed out'', status := Error \<rparr>)"
    by (intro wf_set_error wf_terminate)
  with w1 Some f show ?thesis by (simp add: fire_def timeoutAction_def)
qed

lemma wf_step: "wf s \<Longrightarrow> wf (step e s)"
  by (cases e) (simp_all add: wf_render wf_onmessage wf_onerror wf_postMessage wf_terminate wf_fire)

lemma wf_run: "wf s \<Longrightarrow> wf (run es s)"
  by (induction es arbitrary: s) (simp_all add: wf_step)

lemma wf_reachable: "wf (run es init_state)"
  by (rule wf_run [OF wf_init])

lemma clear_fields [simp]:
  "data (clearPendingTimeout s) = data s"
  "error (clearPendingTimeout s) = error s"
  "status (clearPendingTimeout s) = status s"
  "workerRef (clearPendingTimeout s) = workerRef s"
  "effects (clearPendingTimeout s) = effects s"
  "next_worker (clearPendingTimeout s) = next_worker s"
  "next_timer (clearPendingTimeout s) = next_timer s"
  "deps (clearPendingTimeout s) = deps s"
  "cleanup (clearPendingTimeout s) = cleanup s"
  by (simp_all add: clearPendingTimeout_def split: option.splits)













lemma wf_state_after: "wf (state_after evs)"
  unfolding state_after_def by (rule wf_reachable)


lemma wf_live: "wf s \<Longrightarrow> live w s \<longleftrightarrow> workerRef s = Some w"
  by (auto simp: wf_def live_def count_list_0_iff [symmetric] split: if_splits)

section \<open>Where a null can come from\<close>








section \<open>Evaluating a sequence\<close>

lemmas hook_defs = state_after_def init_state_def render_def effect_body_def
  terminateWorker_def clearPendingTimeout_def onmessage_def onerror_def postMessage_def
  fire_def timeoutAction_def misuse_def live_def Let_def

section \<open>The nullity rules of the observable state\<close>




section \<open>Facts about single callbacks\<close>

lemma terminate_fields [simp]:
  "next_worker (terminateWorker s) = next_worker s"
  "next_timer (terminateWorker s) = next_timer s"
  "deps (terminateWorker s) = deps s"
  "cleanup (terminateWorker s) = cleanup s"
  by (simp_all add: terminateWorker_def split: option.splits)

lemma onmessage_eq:
  assumes "wf s"
  shows "onmessage p s =
    s\<lparr> data := p, status := Success, error := JNull, timers := [], timeoutRef := None \<rparr>"
proof -
  let ?s1 = "s\<lparr> data := p, status := Success, error := JNull \<rparr>"
  from assms have "\<forall>p \<in> set (timers ?s1). timeoutRef ?s1 = Some (fst p)"
    and "\<forall>t. timeoutRef ?s1 = Some t \<longrightarrow> 0 < t"
    by (simp_all add: wf_def)
  then have "clearPendingTimeout ?s1 = ?s1\<lparr> timers := [], timeoutRef := None \<rparr>"
    by (rule clear_eq)
  then show ?thesis by (simp add: onmessage_def)
qed

lemma fire_no_timers: "timers s = [] \<Longrightarrow> fire t s = s"
  by (simp add: fire_def)

lemma run_fires_no_timers: "timers s = [] \<Longrightarrow> run (map TimerFires ts) s = s"
  by (induction ts) (simp_all add: fire_no_timers)

lemma no_handle_none_live: "wf s \<Longrightarrow> workerRef s = None \<Longrightarrow> \<not> live w s"
  by (simp add: wf_live)

lemma effect_body_fields [simp]:
  "effects (effect_body c src tmo out s) = effects s"
  "data (effect_body c src tmo out s) = data s"
  by (cases out; simp add: effect_body_def Let_def)+

lemma effect_body_throws:
  "truthy_source src \<Longrightarrow>
   effect_body c src tmo (Throws e) s = s\<lparr> error := e, status := Error, cleanup := True \<rparr>"
  by (simp add: effect_body_def)

lemma effect_body_falsy:
  "\<not> truthy_source src \<Longrightarrow> effect_body c src tmo out s = s\<lparr> cleanup := False \<rparr>"
  by (simp add: effect_body_def)

lemma effect_body_spawned:
  "truthy_source src \<Longrightarrow>
   status (effect_body c src tmo Spawned s) = Running
   \<and> workerRef (effect_body c src tmo Spawned s) = Some (next_worker s)"
  by (simp add: effect_body_def Let_def)

lemma teardown_status:
  assumes "wf s"
  shows "status (if cleanup s then terminateWorker s else s) =
    (if workerRef s = None then status s else Terminated)"
proof (cases "workerRef s")
  case None
  then show ?thesis by (simp add: terminate_none)
next
  case (Some w)
  with assms have "cleanup s" by (simp add: wf_def)
  with Some show ?thesis by (simp add: terminate_some [OF assms Some])
qed

text \<open>
  A timer whose closure captured a status other than \<open>Success\<close> and \<open>Error\<close> (as on
  the first mount, where it is \<open>Idle\<close>): when it fires, the held handle is terminated and
  the state is the timeout error.
\<close>

lemma fire_scheduled_outside_success_error:
  assumes "wf s" and "map_of (timers s) t = Some c" and "c \<noteq> Success" and "c \<noteq> Error"
  shows "\<exists>w. workerRef s = Some w \<and>
    fire t s = s\<lparr> effects := effects s @ [Terminate w], workerRef := None, data := JNull,
      timers := [], timeoutRef := None, error := JError ''Worker timed out'',
      status := Error \<rparr>"
proof -
  from assms(2) have m: "(t, c) \<in> set (timers s)" by (rule map_of_SomeD)
  with assms(1) have "timeoutRef s = Some t" by (auto simp: wf_def)
  with assms(1) have "\<forall>p \<in> set (timers s). fst p = t" by (auto simp: wf_def)
  then have f: "filter (\<lambda>p. fst p \<noteq> t) (timers s) = []" by (rule filter_all_out)
  from m assms(1) obtain w where v: "workerRef s = Some w" by (auto simp: wf_def)
  from assms(1) have w1: "wf (s\<lparr> timers := [] \<rparr>)" by (auto simp: wf_def)
  from v have v1: "workerRef (s\<lparr> timers := [] \<rparr>) = Some w" by simp
  have "fire t s = s\<lparr> effects := effects s @ [Terminate w], workerRef := None, data := JNull,
      timers := [], timeoutRef := None, error := JError ''Worker timed out'',
      status := Error \<rparr>"
    using assms(2,3,4) f by (simp add: fire_def timeoutAction_def terminate_some [OF w1 v1])
  with v show ?thesis by blast
qed

section \<open>postMessage\<close>

text \<open>
  Claim C2, as the code has it. For every payload \<open>m\<close> and every callback
  \<^verbatim>\<open>postMessage\<close>, built by a render with status \<open>c\<close>: when no handle is held, or
  \<open>c\<close> is \<open>Terminated\<close>, or the status of a reachable state is \<open>Terminated\<close>, the call
  forwards nothing, emits the notice "Worker is not running or has been terminated.",
  sets \<open>error\<close> to an \<^verbatim>\<open>Error\<close> with that message and the status to \<open>Error\<close>, and
  changes nothing else; when a handle \<open>w\<close> is held and \<open>c\<close> is not \<open>Terminated\<close>, the
  payload is posted to \<open>w\<close> as it is and nothing else changes, so \<open>data\<close>, \<open>error\<close>
  and \<open>status\<close> are as before.
\<close>

theorem postMessage_branches:
  "(workerRef s = None \<or> c = Terminated \<longrightarrow>
      postMessage c m s =
        s\<lparr> effects := effects s @ [Warn ''Worker is not running or has been terminated.''],
           error := JError ''Worker is not running or has been terminated.'',
           status := Error \<rparr>)
   \<and> (status (state_after evs) = Terminated \<longrightarrow>
      postMessage c m (state_after evs) =
        (state_after evs)
          \<lparr> effects := effects (state_after evs)
               @ [Warn ''Worker is not running or has been terminated.''],
            error := JError ''Worker is not running or has been terminated.'',
            status := Error \<rparr>)
   \<and> (\<forall>w. workerRef s = Some w \<and> c \<noteq> Terminated \<longrightarrow>
      postMessage c m s = s\<lparr> effects := effects s @ [Post w m] \<rparr>)"
proof -
  have a: "workerRef s = None \<or> c = Terminated \<longrightarrow>
      postMessage c m s =
        s\<lparr> effects := effects s @ [Warn ''Worker is not running or has been terminated.''],
           error := JError ''Worker is not running or has been terminated.'',
           status := Error \<rparr>"
    by (cases "workerRef s") (simp_all add: postMessage_def misuse_def)
  have "wf (state_after evs)" by (rule wf_state_after)
  then have "status (state_after evs) = Terminated \<longrightarrow> workerRef (state_after evs) = None"
    by (simp add: wf_def)
  then have b: "status (state_after evs) = Terminated \<longrightarrow>
      postMessage c m (state_after evs) =
        (state_after evs)
          \<lparr> effects := effects (state_after evs)
               @ [Warn ''Worker is not running or has been terminated.''],
            error := JError ''Worker is not running or has been terminated.'',
            status := Error \<rparr>"
    by (auto simp: postMessage_def misuse_def)
  have c: "\<forall>w. workerRef s = Some w \<and> c \<noteq> Terminated \<longrightarrow>
      postMessage c m s = s\<lparr> effects := effects s @ [Post w m] \<rparr>"
    by (simp add: postMessage_def)
  show ?thesis by (intro conjI) (fact a b c)+
qed

text \<open>
  The branches on the sequences of the test suite: a post after
  \<^verbatim>\<open>terminateWorker\<close>, through the callback rebuilt since and through the one built
  before, and a post to a running worker.
\<close>

theorem postMessage_branches_witness:
  "(workerRef (state_after [Render (Script ''/example.worker.js'') None Spawned,
        TerminateWorker]) = None
    \<and> status (state_after [Render (Script ''/example.worker.js'') None Spawned,
        TerminateWorker]) = Terminated
    \<and> effects (postMessage Terminated (JObj [(''type'', JStr ''AFTER_TERMINATE'')])
        (state_after [Render (Script ''/example.worker.js'') None Spawned, TerminateWorker]))
        = [Terminate 0, Warn ''Worker is not running or has been terminated.'']
    \<and> error (postMessage Terminated (JObj [(''type'', JStr ''AFTER_TERMINATE'')])
        (state_after [Render (Script ''/example.worker.js'') None Spawned, TerminateWorker]))
        = JError ''Worker is not running or has been terminated.''
    \<and> status (postMessage Terminated (JObj [(''type'', JStr ''AFTER_TERMINATE'')])
        (state_after [Render (Script ''/example.worker.js'') None Spawned, TerminateWorker]))
        = Error
    \<and> effects (postMessage Running (JObj [(''type'', JStr ''AFTER_TERMINATE'')])
        (state_after [Render (Script ''/example.worker.js'') None Spawned, TerminateWorker]))
        = [Terminate 0, Warn ''Worker is not running or has been terminated.'']
    \<and> status (postMessage Running (JObj [(''type'', JStr ''AFTER_TERMINATE'')])
        (state_after [Render (Script ''/example.worker.js'') None Spawned, TerminateWorker]))
        = Error)
   \<and> (workerRef (state_after [Render (Script ''/example.worker.js'') None Spawned]) = Some 0
    \<and> status (state_after [Render (Script ''/example.worker.js'') None Spawned]) = Running
    \<and> postMessage Running (JObj [(''type'', JStr ''TEST''), (''payload'', JNum 42)])
        (state_after [Render (Script ''/example.worker.js'') None Spawned])
        = (state_after [Render (Script ''/example.worker.js'') None Spawned])
            \<lparr> effects := [Post 0 (JObj [(''type'', JStr ''TEST''), (''payload'', JNum 42)])] \<rparr>)"
  using postMessage_branches [where
      s = "state_after [Render (Script ''/example.worker.js'') None Spawned, TerminateWorker]"
      and c = Terminated and m = "JObj [(''type'', JStr ''AFTER_TERMINATE'')]"
      and evs = "[]"]
    postMessage_branches [where
      s = "state_after [Render (Script ''/example.worker.js'') None Spawned, TerminateWorker]"
      and c = Running and m = "JObj [(''type'', JStr ''AFTER_TERMINATE'')]"
      and evs = "[Render (Script ''/example.worker.js'') None Spawned, TerminateWorker]"]
    postMessage_branches [where
      s = "state_after [Render (Script ''/example.worker.js'') None Spawned]"
      and c = Running and m = "JObj [(''type'', JStr ''TEST''), (''payload'', JNum 42)]"
      and evs = "[]"]
  by (simp add: hook_defs)

text \<open>
  Claim C2 as the specification words it reads the status of the hook. The worker is
  terminated by hand and the source then changes: handle 1 is held and live and the
  status is \<open>Running\<close>, but a post through the callback of the render that changed the
  source, built in status \<open>Terminated\<close>, forwards nothing, warns and sets the status to
  \<open>Error\<close>. The same callback, kept by the caller and called after worker 1 has answered
  (status \<open>Success\<close>), does the same.
\<close>

theorem postMessage_stale_callback_counterexample:
  "workerRef (state_after [Render (Script ''/a.js'') None Spawned, TerminateWorker,
        Render (Script ''/b.js'') None Spawned]) = Some 1
   \<and> status (state_after [Render (Script ''/a.js'') None Spawned, TerminateWorker,
        Render (Script ''/b.js'') None Spawned]) = Running
   \<and> live 1 (state_after [Render (Script ''/a.js'') None Spawned, TerminateWorker,
        Render (Script ''/b.js'') None Spawned])
   \<and> effects (postMessage Terminated (JStr ''go'')
        (state_after [Render (Script ''/a.js'') None Spawned, TerminateWorker,
          Render (Script ''/b.js'') None Spawned]))
        = [Terminate 0, Warn ''Worker is not running or has been terminated.'']
   \<and> error (postMessage Terminated (JStr ''go'')
        (state_after [Render (Script ''/a.js'') None Spawned, TerminateWorker,
          Render (Script ''/b.js'') None Spawned]))
        = JError ''Worker is not running or has been terminated.''
   \<and> status (postMessage Terminated (JStr ''go'')
        (state_after [Render (Script ''/a.js'') None Spawned, TerminateWorker,
          Render (Script ''/b.js'') None Spawned])) = Error
   \<and> workerRef (state_after [Render (Script ''/a.js'') None Spawned, TerminateWorker,
        Render (Script ''/b.js'') None Spawned, Message 1 (JNum 5)]) = Some 1
   \<and> status (state_after [Render (Script ''/a.js'') None Spawned, TerminateWorker,
        Render (Script ''/b.js'') None Spawned, Message 1 (JNum 5)]) = Success
   \<and> effects (postMessage Terminated (JStr ''go'')
        (state_after [Render (Script ''/a.js'') None Spawned, TerminateWorker,
          Render (Script ''/b.js'') None Spawned, Message 1 (JNum 5)]))
        = [Terminate 0, Warn ''Worker is not running or has been terminated.'']
   \<and> status (postMessage Terminated (JStr ''go'')
        (state_after [Render (Script ''/a.js'') None Spawned, TerminateWorker,
          Render (Script ''/b.js'') None Spawned, Message 1 (JNum 5)])) = Error"
  by (simp add: hook_defs)

text \<open>
  Claim C9. In the failure branch of \<^verbatim>\<open>postMessage\<close> (no handle held, or a callback
  built in status \<open>Terminated\<close>) only \<open>error\<close> and \<open>status\<close> change: \<open>data\<close> is left as
  it was, not set to null, and the refs and the pending timers are untouched.
\<close>

theorem postMessage_failure_keeps_data:
  assumes "workerRef s = None \<or> c = Terminated"
  shows "data (postMessage c m s) = data s
    \<and> error (postMessage c m s) = JError ''Worker is not running or has been terminated.''
    \<and> status (postMessage c m s) = Error
    \<and> workerRef (postMessage c m s) = workerRef s
    \<and> timeoutRef (postMessage c m s) = timeoutRef s
    \<and> timers (postMessage c m s) = timers s"
  using assms by (cases "workerRef s") (auto simp: postMessage_def misuse_def)

text \<open>
  A state in which the failure branch runs with non-null data: the handle was
  terminated, its relay then delivered a message. The data survives the failed post.
\<close>

theorem postMessage_failure_keeps_data_witness:
  "workerRef (state_after [Render (Script ''/example.worker.js'') None Spawned,
        TerminateWorker, Message 0 (JNum 7)]) = None
   \<and> data (state_after [Render (Script ''/example.worker.js'') None Spawned,
        TerminateWorker, Message 0 (JNum 7)]) = JNum 7
   \<and> data (postMessage Success (JStr ''go'') (state_after [Render (Script
        ''/example.worker.js'') None Spawned, TerminateWorker, Message 0 (JNum 7)])) = JNum 7
   \<and> status (postMessage Success (JStr ''go'') (state_after [Render (Script
        ''/example.worker.js'') None Spawned, TerminateWorker, Message 0 (JNum 7)])) = Error"
  using postMessage_failure_keeps_data [of
      "state_after [Render (Script ''/example.worker.js'') None Spawned, TerminateWorker,
        Message 0 (JNum 7)]" Success "JStr ''go''"]
  by (simp add: hook_defs)

section \<open>The message relay\<close>

text \<open>
  Claim C10. A message whose payload is \<^verbatim>\<open>null\<close> sets the status to \<open>Success\<close> and
  the error to null with \<open>data\<close> null, from any state; in particular a freshly mounted
  worker that answers \<^verbatim>\<open>null\<close> is in status \<open>Success\<close> with null data.
\<close>

theorem null_payload_is_success:
  "status (onmessage JNull s) = Success
   \<and> error (onmessage JNull s) = JNull
   \<and> data (onmessage JNull s) = JNull
   \<and> status (state_after [Render (Script ''/example.worker.js'') None Spawned,
        Message 0 JNull]) = Success
   \<and> data (state_after [Render (Script ''/example.worker.js'') None Spawned,
        Message 0 JNull]) = JNull"
  by (simp add: onmessage_def) (simp add: hook_defs)

text \<open>
  Claim C5. In every reachable state, a message relayed on an existing handle sets
  \<open>data\<close> to the payload, the status to \<open>Success\<close> and \<open>error\<close> to null, and leaves no
  timer pending, without any call on the host; whatever timers the host tries to run
  afterwards, the state stays as it is: still \<open>Success\<close>, no \<^verbatim>\<open>terminate\<close>.
\<close>

theorem message_cancels_timeout:
  assumes "s = state_after evs" and "w < next_worker s"
  shows "data (step (Message w p) s) = p
    \<and> status (step (Message w p) s) = Success
    \<and> error (step (Message w p) s) = JNull
    \<and> timers (step (Message w p) s) = []
    \<and> effects (step (Message w p) s) = effects s
    \<and> run (map TimerFires ts) (step (Message w p) s) = step (Message w p) s"
proof -
  from assms(1) have w: "wf s" by (simp add: wf_state_after)
  have e: "step (Message w p) s =
    s\<lparr> data := p, status := Success, error := JNull, timers := [], timeoutRef := None \<rparr>"
    using assms(2) by (simp add: onmessage_eq [OF w])
  then have "timers (step (Message w p) s) = []" by simp
  then have "run (map TimerFires ts) (step (Message w p) s) = step (Message w p) s"
    by (rule run_fires_no_timers)
  then show ?thesis unfolding e by simp
qed

text \<open>
  With \<^verbatim>\<open>timeout: 100\<close>: the timer is pending after the mount, the message arrives,
  and running timer 1 afterwards changes nothing.
\<close>

theorem message_cancels_timeout_witness:
  "0 < next_worker (state_after [Render (Script ''/example.worker.js'') (Some 100) Spawned])
   \<and> timers (state_after [Render (Script ''/example.worker.js'') (Some 100) Spawned])
        = [(1, Idle)]
   \<and> status (run (map TimerFires [1]) (step (Message 0 (JObj [(''message'', JStr ''done'')]))
        (state_after [Render (Script ''/example.worker.js'') (Some 100) Spawned]))) = Success
   \<and> data (run (map TimerFires [1]) (step (Message 0 (JObj [(''message'', JStr ''done'')]))
        (state_after [Render (Script ''/example.worker.js'') (Some 100) Spawned])))
        = JObj [(''message'', JStr ''done'')]
   \<and> effects (run (map TimerFires [1]) (step (Message 0 (JObj [(''message'', JStr ''done'')]))
        (state_after [Render (Script ''/example.worker.js'') (Some 100) Spawned]))) = []"
  using message_cancels_timeout [OF refl,
      where w = 0 and evs = "[Render (Script ''/example.worker.js'') (Some 100) Spawned]"
        and p = "JObj [(''message'', JStr ''done'')]" and ts = "[1]"]
  by (simp add: hook_defs)

section \<open>terminateWorker\<close>

text \<open>
  Claim C3. In every reachable state: when a handle \<open>w\<close> is held,
  \<^verbatim>\<open>terminateWorker\<close> calls \<^verbatim>\<open>terminate\<close> on it, once, and that is the only
  termination \<open>w\<close> ever got; the handle reference becomes null, no timer stays pending,
  the status becomes \<open>Terminated\<close> and \<open>data\<close> and \<open>error\<close> null. When no handle is
  held it changes nothing, and calling it twice is calling it once.
\<close>

theorem terminateWorker_effect:
  assumes "s = state_after evs"
  shows "(\<forall>w. workerRef s = Some w \<longrightarrow>
        effects (terminateWorker s) = effects s @ [Terminate w]
      \<and> count_list (effects (terminateWorker s)) (Terminate w) = 1
      \<and> workerRef (terminateWorker s) = None
      \<and> timers (terminateWorker s) = []
      \<and> timeoutRef (terminateWorker s) = None
      \<and> status (terminateWorker s) = Terminated
      \<and> data (terminateWorker s) = JNull
      \<and> error (terminateWorker s) = JNull)
   \<and> (workerRef s = None \<longrightarrow> terminateWorker s = s)
   \<and> terminateWorker (terminateWorker s) = terminateWorker s"
proof -
  from assms have w: "wf s" by (simp add: wf_state_after)
  have a: "\<forall>w. workerRef s = Some w \<longrightarrow>
        effects (terminateWorker s) = effects s @ [Terminate w]
      \<and> count_list (effects (terminateWorker s)) (Terminate w) = 1
      \<and> workerRef (terminateWorker s) = None
      \<and> timers (terminateWorker s) = []
      \<and> timeoutRef (terminateWorker s) = None
      \<and> status (terminateWorker s) = Terminated
      \<and> data (terminateWorker s) = JNull
      \<and> error (terminateWorker s) = JNull"
  proof (intro allI impI)
    fix v assume v: "workerRef s = Some v"
    from w v have "count_list (effects s) (Terminate v) = 0" by (simp add: wf_def)
    then show "effects (terminateWorker s) = effects s @ [Terminate v]
      \<and> count_list (effects (terminateWorker s)) (Terminate v) = 1
      \<and> workerRef (terminateWorker s) = None
      \<and> timers (terminateWorker s) = []
      \<and> timeoutRef (terminateWorker s) = None
      \<and> status (terminateWorker s) = Terminated
      \<and> data (terminateWorker s) = JNull
      \<and> error (terminateWorker s) = JNull"
      by (simp add: terminate_some [OF w v])
  qed
  have b: "workerRef s = None \<longrightarrow> terminateWorker s = s"
    by (simp add: terminate_none)
  have c: "terminateWorker (terminateWorker s) = terminateWorker s"
    by (rule terminate_none) (rule workerRef_terminate)
  show ?thesis by (intro conjI) (fact a b c)+
qed

text \<open>
  A worker mounted with a timeout and terminated by hand; and a call before any worker
  exists.
\<close>

theorem terminateWorker_effect_witness:
  "(workerRef (state_after [Render (Script ''/example.worker.js'') (Some 100) Spawned]) = Some 0
    \<and> timers (state_after [Render (Script ''/example.worker.js'') (Some 100) Spawned])
        = [(1, Idle)]
    \<and> effects (terminateWorker
        (state_after [Render (Script ''/example.worker.js'') (Some 100) Spawned]))
        = [Terminate 0]
    \<and> timers (terminateWorker
        (state_after [Render (Script ''/example.worker.js'') (Some 100) Spawned])) = []
    \<and> status (terminateWorker
        (state_after [Render (Script ''/example.worker.js'') (Some 100) Spawned])) = Terminated)
   \<and> (workerRef (state_after []) = None
    \<and> terminateWorker (state_after []) = state_after [])"
  using terminateWorker_effect [OF refl,
      where evs = "[Render (Script ''/example.worker.js'') (Some 100) Spawned]"]
    terminateWorker_effect [OF refl, where evs = "[]"]
  by (simp add: hook_defs)

section \<open>Initialization\<close>

text \<open>
  Claim C6. In every reachable state, when the effect runs for a truthy source and the
  construction throws \<open>e\<close>: \<open>error\<close> is \<open>e\<close>, the status is \<open>Error\<close>, no handle is
  held and none is live, no timer is pending and none was scheduled, and no handle was
  created.
\<close>

theorem construction_failure:
  assumes "s = state_after evs" and "truthy_source src" and "deps s \<noteq> Some (src, tmo)"
  shows "error (step (Render src tmo (Throws e)) s) = e
    \<and> status (step (Render src tmo (Throws e)) s) = Error
    \<and> workerRef (step (Render src tmo (Throws e)) s) = None
    \<and> (\<forall>w. \<not> live w (step (Render src tmo (Throws e)) s))
    \<and> timers (step (Render src tmo (Throws e)) s) = []
    \<and> next_timer (step (Render src tmo (Throws e)) s) = next_timer s
    \<and> next_worker (step (Render src tmo (Throws e)) s) = next_worker s"
proof -
  from assms(1) have w: "wf s" by (simp add: wf_state_after)
  let ?c = "if cleanup s then terminateWorker s else s"
  let ?s' = "step (Render src tmo (Throws e)) s"
  have e: "?s' = ?c\<lparr> deps := Some (src, tmo), error := e, status := Error, cleanup := True \<rparr>"
    using assms(2,3) by (simp add: render_def effect_body_throws)
  have wc: "wf ?c" and nc: "workerRef ?c = None" using w by (rule wf_teardown)+
  from wc nc have tc: "timers ?c = []" by (rule wf_timers_empty)
  have w': "wf ?s'" using w by (rule wf_step)
  have n': "workerRef ?s' = None" unfolding e using nc by simp
  from w' n' have l: "\<forall>w. \<not> live w ?s'" by (simp add: no_handle_none_live)
  have "error ?s' = e" "status ?s' = Error" "timers ?s' = []"
    "next_timer ?s' = next_timer s" "next_worker ?s' = next_worker s"
    unfolding e using tc by simp_all
  with n' l show ?thesis by blast
qed

text \<open>
The constructor throws on the first mount, as in the test suite.
\<close>

theorem construction_failure_witness:
  "truthy_source (Script ''/example.worker.js'')
   \<and> deps (state_after []) \<noteq> Some (Script ''/example.worker.js'', Some 100)
   \<and> error (step (Render (Script ''/example.worker.js'') (Some 100)
        (Throws (JError ''Failed to create worker''))) (state_after []))
        = JError ''Failed to create worker''
   \<and> status (step (Render (Script ''/example.worker.js'') (Some 100)
        (Throws (JError ''Failed to create worker''))) (state_after [])) = Error
   \<and> workerRef (step (Render (Script ''/example.worker.js'') (Some 100)
        (Throws (JError ''Failed to create worker''))) (state_after [])) = None
   \<and> timers (step (Render (Script ''/example.worker.js'') (Some 100)
        (Throws (JError ''Failed to create worker''))) (state_after [])) = []"
  using construction_failure [OF refl, where src = "Script ''/example.worker.js''"
      and evs = "[]" and tmo = "Some 100" and e = "JError ''Failed to create worker''"]
  by (simp add: hook_defs)

text \<open>
  Claim C7, as the code has it. In every reachable state, a render with an empty or
  absent source creates no handle and leaves none held or live. The effect itself does
  not touch the status: it is what the teardown of the previous cycle leaves, that is
  unchanged when no handle was held (so \<open>Idle\<close> stays \<open>Idle\<close>, as on the first mount),
  and \<open>Terminated\<close> when a held handle was torn down.
\<close>

theorem empty_source_creates_no_handle:
  assumes "s = state_after evs" and "\<not> truthy_source src"
  shows "next_worker (step (Render src tmo out) s) = next_worker s
    \<and> workerRef (step (Render src tmo out) s) = None
    \<and> (\<forall>w. \<not> live w (step (Render src tmo out) s))
    \<and> status (step (Render src tmo out) s) =
        (if workerRef s = None then status s else Terminated)
    \<and> (status s = Idle \<longrightarrow> status (step (Render src tmo out) s) = Idle)"
proof -
  from assms(1) have w: "wf s" by (simp add: wf_state_after)
  let ?c = "if cleanup s then terminateWorker s else s"
  let ?s' = "step (Render src tmo out) s"
  have w': "wf ?s'" using w by (rule wf_step)
  have i: "status s = Idle \<longrightarrow> workerRef s = None" using w by (simp add: wf_def)
  have main: "next_worker ?s' = next_worker s \<and> workerRef ?s' = None
    \<and> status ?s' = (if workerRef s = None then status s else Terminated)"
  proof (cases "deps s = Some (src, tmo)")
    case True
    with assms(2) have "\<not> registered (deps s)" by simp
    with w have "workerRef s = None" by (auto simp: wf_def)
    with True show ?thesis by (simp add: render_def)
  next
    case False
    then have e: "?s' = ?c\<lparr> deps := Some (src, tmo), cleanup := False \<rparr>"
      using assms(2) by (simp add: render_def effect_body_falsy)
    have nc: "workerRef ?c = None" using w by (rule wf_teardown)
    show ?thesis unfolding e using nc teardown_status [OF w] by (simp)
  qed
  then have n': "workerRef ?s' = None" by simp
  from w' n' have l: "\<forall>w. \<not> live w ?s'" by (simp add: no_handle_none_live)
  from main l i show ?thesis by simp
qed

text \<open>
  The first mount with an empty string, and an empty string replacing the source of a
  running worker.
\<close>

theorem empty_source_creates_no_handle_witness:
  "\<not> truthy_source (Script [])
   \<and> status (state_after []) = Idle
   \<and> status (step (Render (Script []) None Spawned) (state_after [])) = Idle
   \<and> next_worker (step (Render (Script []) None Spawned) (state_after [])) = 0
   \<and> workerRef (state_after [Render (Script ''/example.worker.js'') None Spawned]) = Some 0
   \<and> status (step (Render (Script []) None Spawned)
        (state_after [Render (Script ''/example.worker.js'') None Spawned])) = Terminated
   \<and> next_worker (step (Render (Script []) None Spawned)
        (state_after [Render (Script ''/example.worker.js'') None Spawned])) = 1"
  using empty_source_creates_no_handle [OF refl, where src = "Script []" and evs = "[]"
      and tmo = None and out = Spawned]
    empty_source_creates_no_handle [OF refl, where src = "Script []"
      and evs = "[Render (Script ''/example.worker.js'') None Spawned]"
      and tmo = None and out = Spawned]
  by (simp add: hook_defs)

text \<open>
  Claim C7 as the specification words it fails when the source changes from a script to
  the empty string while the worker runs: the status is \<open>Terminated\<close>, not \<open>Idle\<close>.
\<close>

theorem empty_source_after_running_counterexample:
  "status (state_after [Render (Script ''/example.worker.js'') None Spawned,
      Render (Script []) None Spawned]) = Terminated
   \<and> status (state_after [Render (Script ''/example.worker.js'') None Spawned,
      Render (Script []) None Spawned]) \<noteq> Idle"
  by (simp add: hook_defs)

text \<open>
  Claim C8. In every reachable state at most one handle is live and at most one timer is
  pending. When the dependencies change in status \<open>Running\<close>, the render is the effect
  body applied to the state \<^verbatim>\<open>terminateWorker\<close> leaves, in which no handle is live; the
  handle \<open>w\<close> held before has then been terminated exactly once and is not live; and
  when the new source is truthy and its construction succeeds, the status is \<open>Running\<close>
  again with a new live handle, different from \<open>w\<close>.
\<close>

theorem one_handle_one_timer:
  assumes "s = state_after evs"
  shows "(\<forall>v v'. live v s \<and> live v' s \<longrightarrow> v = v')
    \<and> length (timers s) \<le> 1
    \<and> (status s = Running \<and> deps s \<noteq> Some (src, tmo) \<longrightarrow>
        (\<exists>w. workerRef s = Some w \<and> live w s
          \<and> step (Render src tmo out) s =
              effect_body Running src tmo out ((terminateWorker s)\<lparr> deps := Some (src, tmo) \<rparr>)
          \<and> (\<forall>v. \<not> live v (terminateWorker s))
          \<and> count_list (effects (step (Render src tmo out) s)) (Terminate w) = 1
          \<and> \<not> live w (step (Render src tmo out) s)
          \<and> (truthy_source src \<and> out = Spawned \<longrightarrow>
                status (step (Render src tmo out) s) = Running
              \<and> workerRef (step (Render src tmo out) s) = Some (next_worker s)
              \<and> next_worker s \<noteq> w
              \<and> live (next_worker s) (step (Render src tmo out) s))))"
proof -
  from assms have w: "wf s" by (simp add: wf_state_after)
  have a: "\<forall>v v'. live v s \<and> live v' s \<longrightarrow> v = v'"
    by (auto simp: wf_live [OF w])
  have b: "length (timers s) \<le> 1" using w by (simp add: wf_def)
  have c: "status s = Running \<and> deps s \<noteq> Some (src, tmo) \<longrightarrow>
        (\<exists>w. workerRef s = Some w \<and> live w s
          \<and> step (Render src tmo out) s =
              effect_body Running src tmo out ((terminateWorker s)\<lparr> deps := Some (src, tmo) \<rparr>)
          \<and> (\<forall>v. \<not> live v (terminateWorker s))
          \<and> count_list (effects (step (Render src tmo out) s)) (Terminate w) = 1
          \<and> \<not> live w (step (Render src tmo out) s)
          \<and> (truthy_source src \<and> out = Spawned \<longrightarrow>
                status (step (Render src tmo out) s) = Running
              \<and> workerRef (step (Render src tmo out) s) = Some (next_worker s)
              \<and> next_worker s \<noteq> w
              \<and> live (next_worker s) (step (Render src tmo out) s)))"
  proof
    assume h: "status s = Running \<and> deps s \<noteq> Some (src, tmo)"
    let ?s' = "step (Render src tmo out) s"
    from h w obtain v where v: "workerRef s = Some v" by (auto simp: wf_def)
    with w have cl: "cleanup s" and lt: "v < next_worker s"
      and z: "count_list (effects s) (Terminate v) = 0"
      by (simp_all add: wf_def)
    have lv: "live v s" using v by (simp add: wf_live [OF w])
    have e: "?s' = effect_body Running src tmo out ((terminateWorker s)\<lparr> deps := Some (src, tmo) \<rparr>)"
      using h cl by (simp add: render_def)
    have wt: "wf (terminateWorker s)" using w by (rule wf_terminate)
    then have nl: "\<forall>u. \<not> live u (terminateWorker s)"
      by (simp add: no_handle_none_live workerRef_terminate)
    have ef: "effects ?s' = effects s @ [Terminate v]"
      unfolding e by (simp add: terminate_some [OF w v])
    then have cnt: "count_list (effects ?s') (Terminate v) = 1" using z by simp
    have w': "wf ?s'" using w by (rule wf_step)
    have dead: "\<not> live v ?s'" using ef by (simp add: live_def)
    have fresh: "truthy_source src \<and> out = Spawned \<longrightarrow>
                status ?s' = Running
              \<and> workerRef ?s' = Some (next_worker s)
              \<and> next_worker s \<noteq> v
              \<and> live (next_worker s) ?s'"
    proof
      assume t: "truthy_source src \<and> out = Spawned"
      then have r: "status ?s' = Running \<and> workerRef ?s' = Some (next_worker s)"
        unfolding e using effect_body_spawned [of src Running tmo "(terminateWorker s)\<lparr> deps := Some (src, tmo) \<rparr>"]
        by simp
      then have "live (next_worker s) ?s'"
        using wf_live [OF w', of "next_worker s"] by blast
      with r lt show "status ?s' = Running
              \<and> workerRef ?s' = Some (next_worker s)
              \<and> next_worker s \<noteq> v
              \<and> live (next_worker s) ?s'" by simp
    qed
    from v lv e nl cnt dead fresh
    show "\<exists>w. workerRef s = Some w \<and> live w s
          \<and> step (Render src tmo out) s =
              effect_body Running src tmo out ((terminateWorker s)\<lparr> deps := Some (src, tmo) \<rparr>)
          \<and> (\<forall>v. \<not> live v (terminateWorker s))
          \<and> count_list (effects (step (Render src tmo out) s)) (Terminate w) = 1
          \<and> \<not> live w (step (Render src tmo out) s)
          \<and> (truthy_source src \<and> out = Spawned \<longrightarrow>
                status (step (Render src tmo out) s) = Running
              \<and> workerRef (step (Render src tmo out) s) = Some (next_worker s)
              \<and> next_worker s \<noteq> w
              \<and> live (next_worker s) (step (Render src tmo out) s))"
      by blast
  qed
  show ?thesis by (intro conjI) (fact a b c)+
qed

text \<open>
The source of a running worker changes to another script.
\<close>

theorem one_handle_one_timer_witness:
  "status (state_after [Render (Script ''/example.worker.js'') None Spawned]) = Running
   \<and> deps (state_after [Render (Script ''/example.worker.js'') None Spawned])
        \<noteq> Some (Script ''/new.worker.js'', None)
   \<and> truthy_source (Script ''/new.worker.js'')
   \<and> live 0 (state_after [Render (Script ''/example.worker.js'') None Spawned])
   \<and> effects (step (Render (Script ''/new.worker.js'') None Spawned)
        (state_after [Render (Script ''/example.worker.js'') None Spawned])) = [Terminate 0]
   \<and> status (step (Render (Script ''/new.worker.js'') None Spawned)
        (state_after [Render (Script ''/example.worker.js'') None Spawned])) = Running
   \<and> workerRef (step (Render (Script ''/new.worker.js'') None Spawned)
        (state_after [Render (Script ''/example.worker.js'') None Spawned])) = Some 1
   \<and> live 1 (step (Render (Script ''/new.worker.js'') None Spawned)
        (state_after [Render (Script ''/example.worker.js'') None Spawned]))
   \<and> \<not> live 0 (step (Render (Script ''/new.worker.js'') None Spawned)
        (state_after [Render (Script ''/example.worker.js'') None Spawned]))"
  using one_handle_one_timer [OF refl,
      where evs = "[Render (Script ''/example.worker.js'') None Spawned]"
        and src = "Script ''/new.worker.js''" and tmo = None and out = Spawned]
  by (simp add: hook_defs)

section \<open>The timeout\<close>

text \<open>
  Claim C4 fails on the code. The closure given to \<^verbatim>\<open>setTimeout\<close> reads the
  \<^verbatim>\<open>status\<close> of the render that scheduled it. A first worker answers (status
  \<open>Success\<close>); the source changes, with \<^verbatim>\<open>timeout: 100\<close>; the effect of that render
  creates worker 1 and schedules timer 2, whose closure holds \<open>Success\<close>. Worker 1 never
  answers, the timer fires while pending, and nothing happens: worker 1 is still live,
  the status is still \<open>Running\<close>, the error is null.
\<close>

theorem timeout_scheduled_after_success_is_inert:
  "timers (state_after [Render (Script ''/a.js'') (Some 100) Spawned, Message 0 (JNum 1),
      Render (Script ''/b.js'') (Some 100) Spawned]) = [(2, Success)]
   \<and> workerRef (state_after [Render (Script ''/a.js'') (Some 100) Spawned, Message 0 (JNum 1),
      Render (Script ''/b.js'') (Some 100) Spawned]) = Some 1
   \<and> status (state_after [Render (Script ''/a.js'') (Some 100) Spawned, Message 0 (JNum 1),
      Render (Script ''/b.js'') (Some 100) Spawned, TimerFires 2]) = Running
   \<and> error (state_after [Render (Script ''/a.js'') (Some 100) Spawned, Message 0 (JNum 1),
      Render (Script ''/b.js'') (Some 100) Spawned, TimerFires 2]) = JNull
   \<and> live 1 (state_after [Render (Script ''/a.js'') (Some 100) Spawned, Message 0 (JNum 1),
      Render (Script ''/b.js'') (Some 100) Spawned, TimerFires 2])
   \<and> timers (state_after [Render (Script ''/a.js'') (Some 100) Spawned, Message 0 (JNum 1),
      Render (Script ''/b.js'') (Some 100) Spawned, TimerFires 2]) = []"
  by (simp add: hook_defs)

end
